theory Spec2Isabelle
  imports Complex_Main "HOL-Library.Product_Lexorder" "HOL-Library.Multiset"
begin

section \<open>The unified record table\<close>

text \<open>
  The dashboard (\<^verbatim>\<open>src/dashboard/app.py\<close>) works on one pandas table whose rows are
  observations, events and impact links, told apart by the column \<^verbatim>\<open>record_type\<close>.
  A table is modelled as the list of its rows and a row as a record of the columns the
  functions read.

  A cell that pandas holds as NaN, NaT or None is \<open>None\<close> here. Python floats are
  modelled as real numbers (\<open>pyfloat\<close>, with \<open>None\<close> for NaN): sums, products and
  square roots are exact, so rounding of IEEE doubles is outside the model. A
  \<^verbatim>\<open>pd.Timestamp\<close> is its calendar date and the nanoseconds since midnight; the
  bounds of the Timestamp type (years 1677 to 2262) are not modelled.
\<close>

type_synonym pyfloat = "real option"

datatype timestamp = Timestamp (ts_year: int) (ts_month: int) (ts_day: int) (ts_nanos: nat)

record row =
  record_id :: "string option"
  record_type :: "string option"
  observation_date :: "timestamp option"
  year :: "int option"
  indicator_code :: "string option"
  gender :: "string option"
  value_numeric :: pyfloat
  indicator :: "string option"
  parent_id :: "string option"
  related_indicator :: "string option"
  impact_magnitude :: "string option"
  impact_direction :: "string option"
  lag_months :: pyfloat

text \<open>
  The field \<open>lag_months\<close> holds what \<^verbatim>\<open>pd.to_numeric(..., errors="coerce")\<close> makes
  of the cell: \<open>None\<close> for a missing cell or a text that is not a number.
  The field \<open>year\<close> is the column \<^verbatim>\<open>load_data\<close> adds.
\<close>

definition load_year :: "row \<Rightarrow> row" where
  "load_year r = r\<lparr>year := map_option ts_year (observation_date r)\<rparr>"

definition fillna :: "'a \<Rightarrow> 'a option \<Rightarrow> 'a" where
  "fillna d c = (case c of None \<Rightarrow> d | Some v \<Rightarrow> v)"

section \<open>Event effects\<close>

subsection \<open>Magnitude and direction tables\<close>

definition magnitude_map :: "(string \<times> real) list" where
  "magnitude_map = [(''high'', 0.15), (''medium'', 0.08), (''low'', 0.03), (''negligible'', 0.01)]"

definition direction_map :: "(string \<times> real) list" where
  "direction_map = [(''increase'', 1), (''decrease'', -1), (''stabilize'', 0), (''mixed'', 0)]"

text \<open>\<^verbatim>\<open>Series.map(dict)\<close>: a cell that is missing, or is no key of the dict, maps to NaN.\<close>

definition map_dict :: "('k \<times> 'v) list \<Rightarrow> 'k option \<Rightarrow> 'v option" where
  "map_dict d c = (case c of None \<Rightarrow> None | Some k \<Rightarrow> map_of d k)"

definition effect_size :: "'a row_scheme \<Rightarrow> real" where
  "effect_size r = fillna 0 (map_dict magnitude_map (impact_magnitude r))"

definition direction_sign :: "'a row_scheme \<Rightarrow> real" where
  "direction_sign r = fillna 0 (map_dict direction_map (impact_direction r))"

definition effect :: "'a row_scheme \<Rightarrow> real" where
  "effect r = effect_size r * direction_sign r"

definition lag_months_num :: "'a row_scheme \<Rightarrow> real" where
  "lag_months_num r = fillna 0 (lag_months r)"

subsection \<open>The ramp of one link\<close>

text \<open>
  \<^verbatim>\<open>event_date + pd.DateOffset(months=n)\<close> moves the month by \<open>n\<close>, carries into
  the year and clips the day to the length of the month reached.
\<close>

definition is_leap_year :: "int \<Rightarrow> bool" where
  "is_leap_year y = (if y mod 400 = 0 then True else if y mod 100 = 0 then False else y mod 4 = 0)"

definition days_in_month :: "int \<Rightarrow> int \<Rightarrow> int" where
  "days_in_month y m =
     (if m = 2 then (if is_leap_year y then 29 else 28)
      else if m = 4 \<or> m = 6 \<or> m = 9 \<or> m = 11 then 30 else 31)"

definition DateOffset_months :: "timestamp \<Rightarrow> int \<Rightarrow> timestamp" where
  "DateOffset_months t n =
     (let k = ts_month t - 1 + n; y = ts_year t + k div 12; m = k mod 12 + 1
      in Timestamp y m (min (ts_day t) (days_in_month y m)) (ts_nanos t))"

text \<open>Python's \<^verbatim>\<open>int(x)\<close> of a float drops the fraction: it rounds toward zero.\<close>

definition py_int :: "real \<Rightarrow> int" where
  "py_int x = (if 0 \<le> x then \<lfloor>x\<rfloor> else \<lceil>x\<rceil>)"

definition arange :: "int \<Rightarrow> int \<Rightarrow> int list" where
  "arange a b = [a..b - 1]"

definition linspace :: "real \<Rightarrow> real \<Rightarrow> nat \<Rightarrow> real list" where
  "linspace start stop num =
     map (\<lambda>i. start + real i * ((stop - start) / real (num - 1))) [0..<num]"

definition effect_series :: "timestamp option \<Rightarrow> real \<Rightarrow> real \<Rightarrow> (int \<times> real) list" where
  "effect_series event_date eff lag =
     (case event_date of
        None \<Rightarrow> []
      | Some d \<Rightarrow>
          (let start = ts_year (DateOffset_months d (py_int lag));
               years = arange start (start + 3);
               ramp = linspace 0.3 1.0 3
           in zip years (map (\<lambda>w. eff * w) ramp)))"

subsection \<open>Joining links to events\<close>

text \<open>
  \<^verbatim>\<open>links.merge(events[["record_id", "observation_date", "indicator"]],
  left_on="parent_id", right_on="record_id", how="left", suffixes=("", "_event"))\<close>.
  Links and events are rows of the same table, so the three columns taken from the
  events also exist on the links. pandas keeps the left (link) columns under their
  names, since the left suffix is empty, and gives the event's columns the suffix
  \<^verbatim>\<open>_event\<close>. A link with no matching event is kept once, with the event's columns
  missing; a link matching several events is repeated. Missing keys match each other,
  as in pandas.
\<close>

record joined_row = row +
  record_id_event :: "string option"
  observation_date_event :: "timestamp option"
  indicator_event :: "string option"

definition join_event :: "row \<Rightarrow> row option \<Rightarrow> joined_row" where
  "join_event l e =
     row.extend l
       (joined_row.fields
          (case e of None \<Rightarrow> None | Some ev \<Rightarrow> record_id ev)
          (case e of None \<Rightarrow> None | Some ev \<Rightarrow> observation_date ev)
          (case e of None \<Rightarrow> None | Some ev \<Rightarrow> indicator ev))"

definition merge_left :: "row list \<Rightarrow> row list \<Rightarrow> joined_row list" where
  "merge_left links events =
     concat (map (\<lambda>l.
       (case filter (\<lambda>e. record_id e = parent_id l) events of
          [] \<Rightarrow> [join_event l None]
        | es \<Rightarrow> map (\<lambda>e. join_event l (Some e)) es)) links)"

subsection \<open>Summing per year\<close>

text \<open>\<^verbatim>\<open>groupby("year")["effect"].sum()\<close>: one entry per year, in ascending order.\<close>

definition groupby_sum :: "(int \<times> real) list \<Rightarrow> (int \<times> real) list" where
  "groupby_sum kvs =
     map (\<lambda>k. (k, sum_list (map snd (filter (\<lambda>kv. fst kv = k) kvs))))
       (sort (remdups (map fst kvs)))"

definition build_event_effects :: "row list \<Rightarrow> string \<Rightarrow> (int \<times> real) list" where
  "build_event_effects df target_code =
     (let events = filter (\<lambda>r. record_type r = Some ''event'') df;
          links = filter (\<lambda>r. record_type r = Some ''impact_link'') df
      in if events = [] \<or> links = [] then []
         else
           (let joined = merge_left links events;
                effects = concat (map
                  (\<lambda>jr. effect_series (observation_date jr) (effect jr) (lag_months_num jr))
                  (filter (\<lambda>jr. related_indicator jr = Some target_code) joined))
            in groupby_sum effects))"

section \<open>Metrics\<close>

definition ts_key :: "timestamp \<Rightarrow> int \<times> int \<times> int \<times> nat" where
  "ts_key t = (ts_year t, ts_month t, ts_day t, ts_nanos t)"

text \<open>
  \<^verbatim>\<open>dropna(subset=["value_numeric", "observation_date"]).sort_values("observation_date")\<close>:
  the rows that have both cells, as (date, value) pairs in ascending order of the date.
  Rows with equal dates keep their order in the table.
\<close>

definition dated_values :: "row list \<Rightarrow> (timestamp \<times> real) list" where
  "dated_values df =
     concat (map (\<lambda>r.
       (case (value_numeric r, observation_date r) of
          (Some v, Some d) \<Rightarrow> [(d, v)]
        | _ \<Rightarrow> [])) df)"

definition sort_values_date :: "(timestamp \<times> real) list \<Rightarrow> (timestamp \<times> real) list" where
  "sort_values_date pts = sort_key (\<lambda>p. ts_key (fst p)) pts"

definition latest_value :: "row list \<Rightarrow> string \<Rightarrow> string option \<Rightarrow> real option" where
  "latest_value df code g =
     (let subset = filter (\<lambda>r. indicator_code r = Some code \<and> record_type r = Some ''observation'') df;
          subset = (case g of
                      None \<Rightarrow> subset
                    | Some s \<Rightarrow> if s = [] then subset else filter (\<lambda>r. gender r = Some s) subset);
          pts = sort_values_date (dated_values subset)
      in if pts = [] then None else Some (snd (last pts)))"


section \<open>Trend forecast\<close>

datatype error = TypeError | LinAlgError | KeyError

record fc_row =
  fc_year :: int
  forecast :: pyfloat
  ci_low :: pyfloat
  ci_high :: pyfloat

text \<open>
  \<^verbatim>\<open>dropna(subset=["year", "value_numeric"])\<close>, then the columns \<^verbatim>\<open>X\<close> and \<^verbatim>\<open>y\<close>:
  the rows that have both cells, as (year, value) points.
\<close>

definition dropna_points :: "'a row_scheme list \<Rightarrow> (real \<times> real) list" where
  "dropna_points series_df =
     concat (map (\<lambda>r.
       (case (year r, value_numeric r) of
          (Some x, Some v) \<Rightarrow> [(real_of_int x, v)]
        | _ \<Rightarrow> [])) series_df)"

text \<open>
  \<^verbatim>\<open>np.polyfit(X, y, 1)\<close> is NumPy's, not the repository's: it solves the least-squares
  problem for the columns \<open>[x, 1]\<close>, each divided by its Euclidean norm, and divides the
  coefficients by the norms again. With two different \<open>x\<close> the solution is the unique
  one of the normal equations. When all \<open>x\<close> are equal the matrix has rank 1 and
  \<^verbatim>\<open>lstsq\<close> returns the solution of least norm of the scaled system (NumPy warns, it
  does not raise); when they are all 0 the first column is divided by 0 and
  \<^verbatim>\<open>lstsq\<close> raises \<^verbatim>\<open>LinAlgError\<close>. The years of the table are calendar years of
  timestamps, so the last case does not occur on the dashboard's data.
\<close>

definition polyfit1 :: "real list \<Rightarrow> real list \<Rightarrow> error + real \<times> real" where
  "polyfit1 X y =
     (case X of
        [] \<Rightarrow> Inl TypeError
      | x0 # _ \<Rightarrow>
          (let n = real (length X);
               sx = sum_list X;
               sy = sum_list y;
               sxx = sum_list (map (\<lambda>x. x * x) X);
               sxy = sum_list (map (\<lambda>p. fst p * snd p) (zip X y))
           in if list_all (\<lambda>x. x = x0) X
              then (if x0 = 0 then Inl LinAlgError
                    else Inr (sy / n / (2 * x0), sy / n / 2))
              else (let slope = (n * sxy - sx * sy) / (n * sxx - sx * sx)
                    in Inr (slope, (sy - slope * sx) / n))))"

text \<open>\<^verbatim>\<open>residuals.std(ddof=1)\<close>: the standard deviation with denominator \<open>N - 1\<close>.\<close>

definition std_ddof1 :: "real list \<Rightarrow> real" where
  "std_ddof1 rs =
     (let m = sum_list rs / real (length rs)
      in sqrt (sum_list (map (\<lambda>r. (r - m) ^ 2) rs) / (real (length rs) - 1)))"

definition fit_linear_forecast :: "'a row_scheme list \<Rightarrow> int list \<Rightarrow> error + fc_row list" where
  "fit_linear_forecast series_df years =
     (let pts = dropna_points series_df;
          X = map fst pts;
          y = map snd pts
      in if length pts < 2
         then Inr (map (\<lambda>yr. \<lparr>fc_year = yr, forecast = None, ci_low = None, ci_high = None\<rparr>) years)
         else
           (case polyfit1 X y of
              Inl e \<Rightarrow> Inl e
            | Inr (slope, intercept) \<Rightarrow>
                (let preds = map (\<lambda>yr. intercept + slope * real_of_int yr) years;
                     residuals = map (\<lambda>p. snd p - (intercept + slope * fst p)) pts;
                     sigma = (if length residuals > 1 then std_ddof1 residuals else 0)
                 in Inr (map (\<lambda>(yr, p). \<lparr>fc_year = yr, forecast = Some p,
                                          ci_low = Some (p - 1.96 * sigma),
                                          ci_high = Some (p + 1.96 * sigma)\<rparr>)
                           (zip years preds)))))"

section \<open>Event-adjusted and scenario forecasts\<close>

text \<open>Float addition and multiplication: NaN in, NaN out.\<close>

definition py_add :: "pyfloat \<Rightarrow> pyfloat \<Rightarrow> pyfloat" where
  "py_add a b = (case (a, b) of (Some x, Some y) \<Rightarrow> Some (x + y) | _ \<Rightarrow> None)"


text \<open>
  The Forecasts tab: \<^verbatim>\<open>fc["forecast_event"] = fc["forecast"] +
  fc["year"].map(effects).fillna(0)\<close> when the box is ticked, and
  \<^verbatim>\<open>fc["forecast_event"] = fc["forecast"]\<close> otherwise. The assignment adds a column.
\<close>

record fc_event_row = fc_row +
  forecast_event :: pyfloat

definition map_effects :: "(int \<times> real) list \<Rightarrow> int \<Rightarrow> pyfloat" where
  "map_effects effects yr = Some (fillna 0 (map_of effects yr))"

definition add_forecast_event :: "bool \<Rightarrow> (int \<times> real) list \<Rightarrow> fc_row list \<Rightarrow> fc_event_row list" where
  "add_forecast_event use_events effects fc =
     map (\<lambda>r. fc_row.extend r
            (fc_event_row.fields
               (if use_events then py_add (forecast r) (map_effects effects (fc_year r))
                else forecast r))) fc"





section \<open>Example tables\<close>

text \<open>Rows for the worked examples: every cell missing but the ones given.\<close>

definition blank_row :: "string \<Rightarrow> string \<Rightarrow> timestamp option \<Rightarrow> row" where
  "blank_row rid rtype d =
     \<lparr>record_id = Some rid, record_type = Some rtype, observation_date = d,
      year = map_option ts_year d, indicator_code = None, gender = None,
      value_numeric = None, indicator = None, parent_id = None,
      related_indicator = None, impact_magnitude = None, impact_direction = None,
      lag_months = None\<rparr>"

definition event_row :: "string \<Rightarrow> timestamp option \<Rightarrow> row" where
  "event_row rid d = blank_row rid ''event'' d"

definition link_row ::
  "string \<Rightarrow> string \<Rightarrow> timestamp option \<Rightarrow> string \<Rightarrow> string \<Rightarrow> string \<Rightarrow> real \<Rightarrow> row" where
  "link_row rid parent d code magnitude direction lag =
     (blank_row rid ''impact_link'' d)
       \<lparr>parent_id := Some parent, related_indicator := Some code,
        impact_magnitude := Some magnitude, impact_direction := Some direction,
        lag_months := Some lag\<rparr>"

definition obs_row :: "string \<Rightarrow> string \<Rightarrow> string \<Rightarrow> timestamp \<Rightarrow> real \<Rightarrow> row" where
  "obs_row rid code g d v =
     (blank_row rid ''observation'' (Some d))
       \<lparr>indicator_code := Some code, gender := Some g, value_numeric := Some v\<rparr>"

text \<open>The perfectly linear series of the worked example: 10, 20, ..., 50 in 2018 to 2022.\<close>

definition linear_series :: "row list" where
  "linear_series =
     [obs_row ''R1'' ''ACC_OWNERSHIP'' ''all'' (Timestamp 2018 12 31 0) 10,
      obs_row ''R2'' ''ACC_OWNERSHIP'' ''all'' (Timestamp 2019 12 31 0) 20,
      obs_row ''R3'' ''ACC_OWNERSHIP'' ''all'' (Timestamp 2020 12 31 0) 30,
      obs_row ''R4'' ''ACC_OWNERSHIP'' ''all'' (Timestamp 2021 12 31 0) 40,
      obs_row ''R5'' ''ACC_OWNERSHIP'' ''all'' (Timestamp 2022 12 31 0) 50]"

section \<open>Vocabulary of the specification\<close>


text \<open>The two kinds of rows of a forecast table: all NaN, and a line with its band.\<close>

definition nan_row :: "int \<Rightarrow> fc_row" where
  "nan_row yr = \<lparr>fc_year = yr, forecast = None, ci_low = None, ci_high = None\<rparr>"

definition line_row :: "real \<Rightarrow> real \<Rightarrow> real \<Rightarrow> int \<Rightarrow> fc_row" where
  "line_row slope intercept sigma yr =
     \<lparr>fc_year = yr, forecast = Some (intercept + slope * real_of_int yr),
      ci_low = Some (intercept + slope * real_of_int yr - 1.96 * sigma),
      ci_high = Some (intercept + slope * real_of_int yr + 1.96 * sigma)\<rparr>"


text \<open>
  How often the left merge repeats a link: once per event whose \<^verbatim>\<open>record_id\<close> is the
  link's \<^verbatim>\<open>parent_id\<close>, and once when there is none.
\<close>

definition join_multiplicity :: "row list \<Rightarrow> row \<Rightarrow> nat" where
  "join_multiplicity events l =
     (case filter (\<lambda>e. record_id e = parent_id l) events of [] \<Rightarrow> 1 | es \<Rightarrow> length es)"

text \<open>A table row with the date of every event replaced.\<close>

definition redate_events :: "timestamp option \<Rightarrow> row \<Rightarrow> row" where
  "redate_events d r = (if record_type r = Some ''event'' then r\<lparr>observation_date := d\<rparr> else r)"

section \<open>Properties of the event effects\<close>

subsection \<open>The lookup tables\<close>

lemma effect_size_cases:
  "effect_size r =
     (if impact_magnitude r = Some ''high'' then 0.15
      else if impact_magnitude r = Some ''medium'' then 0.08
      else if impact_magnitude r = Some ''low'' then 0.03
      else if impact_magnitude r = Some ''negligible'' then 0.01
      else 0)"
  by (simp add: effect_size_def fillna_def map_dict_def magnitude_map_def split: option.split)

lemma direction_sign_cases:
  "direction_sign r =
     (if impact_direction r = Some ''increase'' then 1
      else if impact_direction r = Some ''decrease'' then - 1
      else if impact_direction r = Some ''stabilize'' then 0
      else if impact_direction r = Some ''mixed'' then 0
      else 0)"
  by (simp add: direction_sign_def fillna_def map_dict_def direction_map_def split: option.split)

text \<open>
  C3. The effect of a link is its effect size times its sign. The size is 0.15, 0.08,
  0.03 or 0.01 for the magnitudes high, medium, low and negligible, and 0 for any other
  or missing magnitude; the sign is +1 for increase, -1 for decrease, 0 for stabilize
  and mixed, and 0 for any other or missing direction. A magnitude or a direction
  outside its table gives the effect 0; the effect is a total function of the row, so
  no value of the two cells makes it fail.
\<close>

theorem effect_is_size_times_sign:
  "effect r =
     (if impact_magnitude r = Some ''high'' then 0.15
      else if impact_magnitude r = Some ''medium'' then 0.08
      else if impact_magnitude r = Some ''low'' then 0.03
      else if impact_magnitude r = Some ''negligible'' then 0.01
      else 0)
     * (if impact_direction r = Some ''increase'' then 1
        else if impact_direction r = Some ''decrease'' then - 1
        else if impact_direction r = Some ''stabilize'' then 0
        else if impact_direction r = Some ''mixed'' then 0
        else 0)
   \<and> (impact_magnitude r \<notin> Some ` {''high'', ''medium'', ''low'', ''negligible''}
        \<longrightarrow> effect r = 0)
   \<and> (impact_direction r \<notin> Some ` {''increase'', ''decrease'', ''stabilize'', ''mixed''}
        \<longrightarrow> effect r = 0)"
proof -
  have prod: "effect r = effect_size r * direction_sign r"
    by (simp add: effect_def)
  have mag: "effect_size r = 0"
    if "impact_magnitude r \<notin> Some ` {''high'', ''medium'', ''low'', ''negligible''}"
    using that by (simp add: effect_size_cases)
  have dir: "direction_sign r = 0"
    if "impact_direction r \<notin> Some ` {''increase'', ''decrease'', ''stabilize'', ''mixed''}"
    using that by (simp add: direction_sign_cases)
  show ?thesis
    using mag dir by (simp add: prod effect_size_cases direction_sign_cases)
qed

theorem effect_is_size_times_sign_witness:
  "effect (link_row ''L1'' ''E1'' None ''X'' ''huge'' ''increase'' 12) = 0
   \<and> effect (link_row ''L2'' ''E1'' None ''X'' ''high'' ''sideways'' 12) = 0
   \<and> effect (link_row ''L3'' ''E1'' None ''X'' ''medium'' ''decrease'' 12) = - 0.08"
  using effect_is_size_times_sign [of "link_row ''L1'' ''E1'' None ''X'' ''huge'' ''increase'' 12"]
    effect_is_size_times_sign [of "link_row ''L2'' ''E1'' None ''X'' ''high'' ''sideways'' 12"]
    effect_is_size_times_sign [of "link_row ''L3'' ''E1'' None ''X'' ''medium'' ''decrease'' 12"]
  by (simp add: link_row_def blank_row_def)

subsection \<open>The ramp\<close>

lemma linspace_ramp: "linspace 0.3 1.0 3 = [0.3, 0.65, 1]"
  by (simp add: linspace_def upt_rec numeral_3_eq_3)

lemma arange_three: "arange s (s + 3) = [s, s + 1, s + 2]"
  unfolding arange_def
  by (simp add: upto_rec1[of s] upto_rec1[of "s + 1"] upto_rec1[of "s + 2"])

lemma year_DateOffset_months:
  "ts_year (DateOffset_months t n) = ts_year t + (ts_month t - 1 + n) div 12"
  by (simp add: DateOffset_months_def Let_def)

lemma effect_series_Some:
  "effect_series (Some t) e lag =
     (let s = ts_year t + (ts_month t - 1 + py_int lag) div 12
      in [(s, e * 0.3), (s + 1, e * 0.65), (s + 2, e)])"
  using linspace_ramp
  by (simp add: effect_series_def arange_three year_DateOffset_months Let_def)

lemma effect_series_None: "effect_series None e lag = []"
  by (simp add: effect_series_def)




subsection \<open>The join reads the link's own date\<close>

lemma join_event_link_columns:
  "observation_date (join_event l e) = observation_date l"
  "related_indicator (join_event l e) = related_indicator l"
  "effect (join_event l e) = effect l"
  "lag_months_num (join_event l e) = lag_months_num l"
  "impact_magnitude (join_event l e) = impact_magnitude l"
  "impact_direction (join_event l e) = impact_direction l"
  "lag_months (join_event l e) = lag_months l"
  by (simp_all add: join_event_def row.defs joined_row.defs effect_def effect_size_def
      direction_sign_def lag_months_num_def)







text \<open>
  C1. The claim is about the date of the joined event. The merge keeps the link's own
  \<^verbatim>\<open>observation_date\<close> under that name and stores the event's date as
  \<^verbatim>\<open>observation_date_event\<close>; the loop passes \<^verbatim>\<open>row["observation_date"]\<close>, the
  link's own date, to \<open>effect_series\<close>. For the event of the claim's example, dated
  January 2020, with a link of lag 12, magnitude high and direction increase: when
  the link row carries no date of its own the mapping is empty, and when the link row
  is dated January 1999 the ramp runs over 2000, 2001 and 2002.
\<close>

theorem compose_reads_link_date:
  "build_event_effects
     [event_row ''E1'' (Some (Timestamp 2020 1 15 0)),
      link_row ''L1'' ''E1'' None ''X'' ''high'' ''increase'' 12] ''X'' = []
   \<and> build_event_effects
     [event_row ''E1'' (Some (Timestamp 2020 1 15 0)),
      link_row ''L1'' ''E1'' (Some (Timestamp 1999 1 15 0)) ''X'' ''high'' ''increase'' 12] ''X''
     = [(2000, 0.045), (2001, 0.0975), (2002, 0.15)]"
  by (simp add: build_event_effects_def event_row_def link_row_def blank_row_def
      merge_left_def join_event_link_columns groupby_sum_def effect_def effect_size_cases
      direction_sign_cases lag_months_num_def fillna_def effect_series_Some effect_series_None
      py_int_def)

text \<open>
  C4. A link contributes nothing when its \<^verbatim>\<open>related_indicator\<close> is not the target,
  but the other two exclusions of the claim follow the link's own date, not the
  event's: a link whose parent event is not in the table, and a link whose event has
  no date, both contribute their full ramp when the link row itself is dated
  (here January 2020, lag 12).
\<close>

theorem compose_keeps_orphan_links:
  "build_event_effects
     [event_row ''E1'' (Some (Timestamp 2020 1 15 0)),
      link_row ''L1'' ''E9'' (Some (Timestamp 2020 1 15 0)) ''X'' ''high'' ''increase'' 12] ''X''
     = [(2021, 0.045), (2022, 0.0975), (2023, 0.15)]
   \<and> build_event_effects
     [event_row ''E1'' None,
      link_row ''L1'' ''E1'' (Some (Timestamp 2020 1 15 0)) ''X'' ''high'' ''increase'' 12] ''X''
     = [(2021, 0.045), (2022, 0.0975), (2023, 0.15)]
   \<and> build_event_effects
     [event_row ''E1'' (Some (Timestamp 2020 1 15 0)),
      link_row ''L1'' ''E1'' (Some (Timestamp 2020 1 15 0)) ''Y'' ''high'' ''increase'' 12] ''X''
     = []"
  by (simp add: build_event_effects_def event_row_def link_row_def blank_row_def
      merge_left_def join_event_link_columns groupby_sum_def effect_def effect_size_cases
      direction_sign_cases lag_months_num_def fillna_def effect_series_Some effect_series_None
      py_int_def)

subsection \<open>The composition in terms of the links\<close>

lemma concat_map_if:
  "concat (map (\<lambda>x. if P x then f x else []) xs) = concat (map f (filter P xs))"
  by (induction xs) simp_all

lemma effects_of_one_link:
  "concat (map (\<lambda>jr. effect_series (observation_date jr) (effect jr) (lag_months_num jr))
      (filter (\<lambda>jr. related_indicator jr = Some c)
         (case filter (\<lambda>e. record_id e = parent_id l) events of
            [] \<Rightarrow> [join_event l None]
          | es \<Rightarrow> map (\<lambda>e. join_event l (Some e)) es)))
   = (if related_indicator l = Some c
      then concat (replicate (join_multiplicity events l)
             (effect_series (observation_date l) (effect l) (lag_months_num l)))
      else [])"
proof (cases "filter (\<lambda>e. record_id e = parent_id l) events")
  case Nil
  then show ?thesis
    by (simp add: join_multiplicity_def join_event_link_columns)
next
  case (Cons e es)
  have "map (\<lambda>e. effect_series (observation_date l) (effect l) (lag_months_num l)) (e # es)
      = replicate (length (e # es)) (effect_series (observation_date l) (effect l) (lag_months_num l))"
    by (rule map_replicate_const)
  then show ?thesis
    unfolding join_multiplicity_def Cons list.case
    by (simp add: join_event_link_columns filter_map o_def)
qed

lemma effects_of_links:
  "concat (map (\<lambda>jr. effect_series (observation_date jr) (effect jr) (lag_months_num jr))
      (filter (\<lambda>jr. related_indicator jr = Some c) (merge_left links events)))
   = concat (map (\<lambda>l. concat (replicate (join_multiplicity events l)
             (effect_series (observation_date l) (effect l) (lag_months_num l))))
        (filter (\<lambda>l. related_indicator l = Some c) links))"
proof -
  have "concat (map (\<lambda>jr. effect_series (observation_date jr) (effect jr) (lag_months_num jr))
      (filter (\<lambda>jr. related_indicator jr = Some c) (merge_left links events)))
    = concat (map (\<lambda>l. if related_indicator l = Some c
      then concat (replicate (join_multiplicity events l)
             (effect_series (observation_date l) (effect l) (lag_months_num l)))
      else []) links)"
    unfolding merge_left_def
  proof (induction links)
    case Nil
    then show ?case by simp
  next
    case (Cons l links)
    show ?case
      using effects_of_one_link[of c l events] Cons.IH
      by simp
  qed
  then show ?thesis by (simp add: concat_map_if)
qed

lemma build_event_effects_links:
  "build_event_effects df c =
     (if filter (\<lambda>r. record_type r = Some ''event'') df = []
         \<or> filter (\<lambda>r. record_type r = Some ''impact_link'') df = []
      then []
      else groupby_sum (concat (map
             (\<lambda>l. concat (replicate
                     (join_multiplicity (filter (\<lambda>r. record_type r = Some ''event'') df) l)
                     (effect_series (observation_date l) (effect l) (lag_months_num l))))
             (filter (\<lambda>l. related_indicator l = Some c)
                (filter (\<lambda>r. record_type r = Some ''impact_link'') df)))))"
  by (simp add: build_event_effects_def Let_def effects_of_links)

lemma filter_map_fix:
  assumes "\<And>x. P (f x) = P x" and "\<And>x. P x \<Longrightarrow> f x = x"
  shows "filter P (map f xs) = filter P xs"
  using assms by (induction xs) auto

lemma join_multiplicity_redate:
  "join_multiplicity (map (redate_events d) events) l = join_multiplicity events l"
proof -
  have "filter (\<lambda>e. record_id e = parent_id l) (map (redate_events d) events)
      = map (redate_events d) (filter (\<lambda>e. record_id e = parent_id l) events)"
    by (simp add: filter_map o_def redate_events_def)
  then show ?thesis
    unfolding join_multiplicity_def
    by (cases "filter (\<lambda>e. record_id e = parent_id l) events") simp_all
qed

text \<open>
  What the composition computes, in terms of the link rows alone: the ramp of every
  link for the target indicator, from the link's own date, effect and lag, once per
  matching event (once when none matches), summed per year. The events matter through
  their \<^verbatim>\<open>record_id\<close> only.
\<close>

theorem compose_from_link_columns:
  "build_event_effects df c =
     (if filter (\<lambda>r. record_type r = Some ''event'') df = []
         \<or> filter (\<lambda>r. record_type r = Some ''impact_link'') df = []
      then []
      else groupby_sum (concat (map
             (\<lambda>l. concat (replicate
                     (join_multiplicity (filter (\<lambda>r. record_type r = Some ''event'') df) l)
                     (effect_series (observation_date l) (effect l) (lag_months_num l))))
             (filter (\<lambda>l. related_indicator l = Some c)
                (filter (\<lambda>r. record_type r = Some ''impact_link'') df)))))"
  by (rule build_event_effects_links)

text \<open>
  The dates of the events have no influence on the composed effects: replacing the
  date of every event by any date, or by none, leaves the mapping unchanged.
\<close>

theorem compose_ignores_event_dates:
  "build_event_effects (map (redate_events d) df) c = build_event_effects df c"
proof -
  have ev: "filter (\<lambda>r. record_type r = Some ''event'') (map (redate_events d) df)
      = map (redate_events d) (filter (\<lambda>r. record_type r = Some ''event'') df)"
    by (simp add: filter_map o_def redate_events_def)
  have lk: "filter (\<lambda>r. record_type r = Some ''impact_link'') (map (redate_events d) df)
      = filter (\<lambda>r. record_type r = Some ''impact_link'') df"
    by (rule filter_map_fix) (simp_all add: redate_events_def)
  show ?thesis
    unfolding build_event_effects_links ev lk
    by (simp add: join_multiplicity_redate)
qed

text \<open>
  When no link row names the target indicator, the composed mapping is empty, and the
  event step then adds exactly 0 to every forecast: the event-adjusted column equals
  the forecast with 0 added.
\<close>

theorem compose_empty_adds_zero:
  assumes "filter (\<lambda>r. record_type r = Some ''impact_link'' \<and> related_indicator r = Some c) df = []"
  shows "build_event_effects df c = []
    \<and> map forecast_event (add_forecast_event True (build_event_effects df c) fc)
        = map (\<lambda>r. py_add (forecast r) (Some 0)) fc"
proof -
  have "filter (\<lambda>l. related_indicator l = Some c)
          (filter (\<lambda>r. record_type r = Some ''impact_link'') df) = []"
    using assms by (simp add: conj_commute)
  then have e: "build_event_effects df c = []"
    by (simp add: build_event_effects_links groupby_sum_def)
  show ?thesis
    unfolding e
    by (simp add: add_forecast_event_def fc_row.defs fc_event_row.defs o_def
        map_effects_def fillna_def)
qed

theorem compose_empty_adds_zero_witness:
  "build_event_effects
     [event_row ''E1'' (Some (Timestamp 2020 1 15 0)),
      link_row ''L1'' ''E1'' (Some (Timestamp 2020 1 15 0)) ''Y'' ''high'' ''increase'' 12] ''X'' = []
   \<and> map forecast_event (add_forecast_event True
        (build_event_effects
          [event_row ''E1'' (Some (Timestamp 2020 1 15 0)),
           link_row ''L1'' ''E1'' (Some (Timestamp 2020 1 15 0)) ''Y'' ''high'' ''increase'' 12] ''X'')
        [\<lparr>fc_year = 2025, forecast = Some 50, ci_low = Some 48, ci_high = Some 52\<rparr>])
     = [Some 50]"
  using compose_empty_adds_zero
     [of "''X''" "[event_row ''E1'' (Some (Timestamp 2020 1 15 0)),
      link_row ''L1'' ''E1'' (Some (Timestamp 2020 1 15 0)) ''Y'' ''high'' ''increase'' 12]"
      "[\<lparr>fc_year = 2025, forecast = Some 50, ci_low = Some 48, ci_high = Some 52\<rparr>]"]
  by (simp add: event_row_def link_row_def blank_row_def py_add_def add_forecast_event_def
      fc_row.defs fc_event_row.defs map_effects_def fillna_def)

section \<open>Properties of the trend forecast\<close>

subsection \<open>Least squares\<close>









lemma zip_sums:
  fixes pts :: "(real \<times> real) list"
  shows "(\<Sum>p\<leftarrow>zip (map fst pts) (map snd pts). fst p * snd p) = (\<Sum>p\<leftarrow>pts. fst p * snd p)"
  by (simp add: zip_map_fst_snd)

lemma sum_map_fst_sq:
  fixes pts :: "(real \<times> real) list"
  shows "(\<Sum>x\<leftarrow>map fst pts. x * x) = (\<Sum>p\<leftarrow>pts. fst p * fst p)"
  by (simp add: o_def)





lemma polyfit1_defined:
  fixes pts :: "(real \<times> real) list"
  assumes "pts \<noteq> []" and "\<not> list_all (\<lambda>p. fst p = 0) pts"
  shows "\<exists>s i. polyfit1 (map fst pts) (map snd pts) = Inr (s, i)"
proof -
  obtain p0 rest where pts: "pts = p0 # rest" using assms(1) by (cases pts) auto
  from assms(2) obtain p where p: "p \<in> set pts" "fst p \<noteq> 0"
    by (auto simp: list_all_iff)
  have "fst p0 \<noteq> 0" if "list_all (\<lambda>x. x = fst p0) (map fst pts)"
  proof -
    from that p(1) have "fst p = fst p0" by (simp add: list_all_iff)
    with p(2) show ?thesis by simp
  qed
  then show ?thesis
    unfolding polyfit1_def by (simp add: pts Let_def)
qed

subsection \<open>The forecast table\<close>

lemma length_dropna_points:
  "length (dropna_points df) = length (filter (\<lambda>r. year r \<noteq> None \<and> value_numeric r \<noteq> None) df)"
  unfolding dropna_points_def
  by (induction df) (auto split: option.splits)

lemma fit_few_points:
  "length (dropna_points df) < 2 \<Longrightarrow> fit_linear_forecast df years = Inr (map nan_row years)"
  by (simp add: fit_linear_forecast_def Let_def nan_row_def)

lemma zip_map_self: "map (\<lambda>(yr, p). g yr p) (zip ys (map f ys)) = map (\<lambda>yr. g yr (f yr)) ys"
  by (induction ys) simp_all

lemma fit_many_points:
  assumes "2 \<le> length (dropna_points df)"
    and "polyfit1 (map fst (dropna_points df)) (map snd (dropna_points df)) = Inr (s, i)"
  shows "fit_linear_forecast df years =
     Inr (map (line_row s i (std_ddof1 (map (\<lambda>p. snd p - (i + s * fst p)) (dropna_points df)))) years)"
  using assms
  by (simp add: fit_linear_forecast_def Let_def zip_map_self line_row_def)


lemma linear_points:
  "dropna_points linear_series = [(2018, 10), (2019, 20), (2020, 30), (2021, 40), (2022, 50)]"
  by (simp add: dropna_points_def linear_series_def obs_row_def blank_row_def)



text \<open>
  C5. With fewer than two valid points, after dropping the rows with a missing year or
  value, the fit returns a table, not an error: one row per target year, in order,
  with forecast and both bounds NaN.
\<close>

theorem fit_undefined_below_two_points:
  assumes "length (filter (\<lambda>r. year r \<noteq> None \<and> value_numeric r \<noteq> None) series_df) < 2"
    and "years \<noteq> []"
  shows "fit_linear_forecast series_df years =
     Inr (map (\<lambda>yr. \<lparr>fc_year = yr, forecast = None, ci_low = None, ci_high = None\<rparr>) years)"
  using assms(1) fit_few_points[of series_df years]
  by (simp add: length_dropna_points nan_row_def)

theorem fit_undefined_below_two_points_witness:
  "fit_linear_forecast [obs_row ''R1'' ''ACC_OWNERSHIP'' ''all'' (Timestamp 2021 12 31 0) 46]
     [2025, 2026, 2027] =
   Inr [\<lparr>fc_year = 2025, forecast = None, ci_low = None, ci_high = None\<rparr>,
        \<lparr>fc_year = 2026, forecast = None, ci_low = None, ci_high = None\<rparr>,
        \<lparr>fc_year = 2027, forecast = None, ci_low = None, ci_high = None\<rparr>]"
  using fit_undefined_below_two_points
    [of "[obs_row ''R1'' ''ACC_OWNERSHIP'' ''all'' (Timestamp 2021 12 31 0) 46]" "[2025, 2026, 2027]"]
  by simp

text \<open>
  C8. The claim says that a fit with an empty list of target years fails. The function
  has no check of the list: for the linear series and no target year it returns the
  table with no rows.
\<close>

theorem fit_empty_years_counterexample:
  "fit_linear_forecast linear_series [] = Inr []"
proof -
  have "2 \<le> length (dropna_points linear_series)" by (simp add: linear_points)
  moreover have "\<not> list_all (\<lambda>p. fst p = 0) (dropna_points linear_series)"
    by (simp add: linear_points)
  moreover have "dropna_points linear_series \<noteq> []" by (simp add: linear_points)
  ultimately obtain s i where
    "polyfit1 (map fst (dropna_points linear_series)) (map snd (dropna_points linear_series)) = Inr (s, i)"
    using polyfit1_defined[of "dropna_points linear_series"] by auto
  with \<open>2 \<le> length (dropna_points linear_series)\<close> show ?thesis
    using fit_many_points[of linear_series s i "[]"] by simp
qed

text \<open>
  C8, amended. A fit with an empty list of target years is no failure: whenever the
  series has fewer than two valid points, or a valid point whose year is not 0, the
  fit returns the table with no rows.
\<close>

theorem fit_empty_years_gives_empty_table:
  assumes "length (dropna_points series_df) < 2
           \<or> \<not> list_all (\<lambda>p. fst p = 0) (dropna_points series_df)"
  shows "fit_linear_forecast series_df [] = Inr []"
proof (cases "length (dropna_points series_df) < 2")
  case True
  then show ?thesis using fit_few_points[of series_df "[]"] by simp
next
  case False
  then have len: "2 \<le> length (dropna_points series_df)" by simp
  then have "dropna_points series_df \<noteq> []" by auto
  moreover from assms False have "\<not> list_all (\<lambda>p. fst p = 0) (dropna_points series_df)"
    by simp
  ultimately obtain s i where
    "polyfit1 (map fst (dropna_points series_df)) (map snd (dropna_points series_df)) = Inr (s, i)"
    using polyfit1_defined[of "dropna_points series_df"] by auto
  with len show ?thesis
    using fit_many_points[of series_df s i "[]"] by simp
qed

theorem fit_empty_years_gives_empty_table_witness:
  "fit_linear_forecast
     [obs_row ''R1'' ''ACC_OWNERSHIP'' ''all'' (Timestamp 2020 12 31 0) 10,
      obs_row ''R2'' ''ACC_OWNERSHIP'' ''all'' (Timestamp 2021 12 31 0) 15] [] = Inr []"
  using fit_empty_years_gives_empty_table
    [of "[obs_row ''R1'' ''ACC_OWNERSHIP'' ''all'' (Timestamp 2020 12 31 0) 10,
          obs_row ''R2'' ''ACC_OWNERSHIP'' ''all'' (Timestamp 2021 12 31 0) 15]"]
  by (simp add: dropna_points_def obs_row_def blank_row_def)

section \<open>Properties of the overlay and of the metrics\<close>

lemma add_forecast_event_columns:
  "map fc_year (add_forecast_event u effects fc) = map fc_year fc"
  "map forecast (add_forecast_event u effects fc) = map forecast fc"
  "map ci_low (add_forecast_event u effects fc) = map ci_low fc"
  "map ci_high (add_forecast_event u effects fc) = map ci_high fc"
  by (simp_all add: add_forecast_event_def fc_row.defs fc_event_row.defs o_def)

lemma add_forecast_event_new:
  "map forecast_event (add_forecast_event u effects fc) =
     map (\<lambda>r. if u then py_add (forecast r)
                       (Some (case map_of effects (fc_year r) of None \<Rightarrow> 0 | Some e \<Rightarrow> e))
               else forecast r) fc"
  by (simp add: add_forecast_event_def fc_row.defs fc_event_row.defs o_def map_effects_def fillna_def)

lemma truncate_event: "map fc_row.truncate (add_forecast_event u effects fc) = fc"
  by (induction fc) (simp_all add: add_forecast_event_def fc_row.defs fc_event_row.defs)




lemma dated_values_set:
  "(d, v) \<in> set (dated_values rows) \<longleftrightarrow>
     (\<exists>r \<in> set rows. observation_date r = Some d \<and> value_numeric r = Some v)"
  unfolding dated_values_def by (induction rows) (auto split: option.splits)




text \<open>
  C6. The event step adds the column \<^verbatim>\<open>forecast_event\<close> and changes nothing else:
  the years, the original forecast and both bounds of the band are what they were, row
  by row, and dropping the new column gives the table back. The new column is the
  forecast plus the effect of the row's year, 0 for a year the mapping lacks (or the
  forecast itself when event effects are switched off).
\<close>

theorem event_step_keeps_forecast_and_band:
  "map fc_year (add_forecast_event use_events effects fc) = map fc_year fc
   \<and> map forecast (add_forecast_event use_events effects fc) = map forecast fc
   \<and> map ci_low (add_forecast_event use_events effects fc) = map ci_low fc
   \<and> map ci_high (add_forecast_event use_events effects fc) = map ci_high fc
   \<and> map fc_row.truncate (add_forecast_event use_events effects fc) = fc
   \<and> map forecast_event (add_forecast_event use_events effects fc) =
       map (\<lambda>r. if use_events
                 then py_add (forecast r)
                        (Some (case map_of effects (fc_year r) of None \<Rightarrow> 0 | Some e \<Rightarrow> e))
                 else forecast r) fc"
  by (simp add: add_forecast_event_columns add_forecast_event_new truncate_event)

theorem event_step_keeps_forecast_and_band_witness:
  "add_forecast_event True [(2025, 0.15), (2026, 0.3)]
     [\<lparr>fc_year = 2025, forecast = Some 50, ci_low = Some 48, ci_high = Some 52\<rparr>,
      \<lparr>fc_year = 2027, forecast = Some 54, ci_low = Some 52, ci_high = Some 56\<rparr>,
      \<lparr>fc_year = 2028, forecast = None, ci_low = None, ci_high = None\<rparr>]
   = [\<lparr>fc_year = 2025, forecast = Some 50, ci_low = Some 48, ci_high = Some 52,
        forecast_event = Some 50.15\<rparr>,
      \<lparr>fc_year = 2027, forecast = Some 54, ci_low = Some 52, ci_high = Some 56,
        forecast_event = Some 54\<rparr>,
      \<lparr>fc_year = 2028, forecast = None, ci_low = None, ci_high = None,
        forecast_event = None\<rparr>]"
  using event_step_keeps_forecast_and_band [of True "[(2025, 0.15), (2026, 0.3)]"
     "[\<lparr>fc_year = 2025, forecast = Some 50, ci_low = Some 48, ci_high = Some 52\<rparr>,
      \<lparr>fc_year = 2027, forecast = Some 54, ci_low = Some 52, ci_high = Some 56\<rparr>,
      \<lparr>fc_year = 2028, forecast = None, ci_low = None, ci_high = None\<rparr>]"]
  by (simp add: add_forecast_event_def fc_row.defs fc_event_row.defs map_effects_def fillna_def py_add_def)





end
